theory Spec2Isabelle
  imports Complex_Main
begin

section \<open>http2-auto-window-size: the adaptive window controller of \<^verbatim>\<open>src/library/index.ts\<close>\<close>

text \<open>
  The library attaches three callbacks to an HTTP/2 session: a periodic bandwidth
  calculation, a self-rescheduling ping, and a byte counter wrapped around every stream's
  \<^verbatim>\<open>push\<close>. All of them run on the single JavaScript event loop, so each callback is a
  function from the closure's variables to their new values, together with the calls it
  makes on the session and on the two optional observers.

  JavaScript numbers are modelled as exact values: \<^typ>\<open>real\<close> for configuration values,
  window sizes and ping durations, \<^typ>\<open>int\<close> for \<^verbatim>\<open>Date.now()\<close> (whole milliseconds) and
  \<^typ>\<open>nat\<close> for the byte counter (a sum of buffer lengths). Rounding of IEEE doubles,
  \<^verbatim>\<open>NaN\<close> and \<^verbatim>\<open>Infinity\<close> are outside the model.
\<close>

subsection \<open>Constants and options\<close>

definition BANDWIDTH_CALCULATION_INTERVAL_DEFAULT :: real where
  "BANDWIDTH_CALCULATION_INTERVAL_DEFAULT = 200"

definition MIN_WINDOW_SIZE_DEFAULT :: real where
  "MIN_WINDOW_SIZE_DEFAULT = 64 * 1024"

definition WINDOW_SIZE_FACTOR_DEFAULT :: real where
  "WINDOW_SIZE_FACTOR_DEFAULT = 2"

definition WINDOW_SIZE_REDUCING_RTT_THRESHOLD_FACTOR_DEFAULT :: real where
  "WINDOW_SIZE_REDUCING_RTT_THRESHOLD_FACTOR_DEFAULT = 5"

definition INITIAL_PING_DURATION_REFERENCE_DEFAULT :: real where
  "INITIAL_PING_DURATION_REFERENCE_DEFAULT = 100"

definition PING_INTERVAL_FACTOR_DEFAULT :: real where
  "PING_INTERVAL_FACTOR_DEFAULT = 50"

text \<open>
  \<^verbatim>\<open>AutoWindowSizeOptions\<close>: every property is optional. The two observers are functions
  in the source; the model records whether each one was supplied and logs its calls.
\<close>

record AutoWindowSizeOptions =
  opt_bandwidthCalculationInterval :: "real option"
  opt_initialWindowSize :: "real option"
  opt_minWindowSize :: "real option"
  opt_windowSizeFactor :: "real option"
  opt_windowSizeReducingRTTThresholdFactor :: "real option"
  opt_initialPingDurationReference :: "real option"
  opt_pingIntervalFactor :: "real option"
  opt_onSetLocalWindowSize :: bool
  opt_onPingCallback :: bool

text \<open>The parameter bindings of \<^verbatim>\<open>setupAutoWindowSize\<close> after destructuring with defaults.\<close>

record config =
  bandwidthCalculationInterval :: real
  initialWindowSize :: "real option"
  minWindowSize :: real
  windowSizeFactor :: real
  windowSizeReducingRTTThresholdFactor :: real
  initialPingDurationReference :: real
  pingIntervalFactor :: real
  onSetLocalWindowSize :: bool
  onPingCallback :: bool

definition orDefault :: "real option \<Rightarrow> real \<Rightarrow> real" where
  "orDefault v d = (case v of None \<Rightarrow> d | Some x \<Rightarrow> x)"

definition destructure :: "AutoWindowSizeOptions \<Rightarrow> config" where
  "destructure opts =
     \<lparr> bandwidthCalculationInterval =
         orDefault (opt_bandwidthCalculationInterval opts) BANDWIDTH_CALCULATION_INTERVAL_DEFAULT,
       initialWindowSize = opt_initialWindowSize opts,
       minWindowSize = orDefault (opt_minWindowSize opts) MIN_WINDOW_SIZE_DEFAULT,
       windowSizeFactor = orDefault (opt_windowSizeFactor opts) WINDOW_SIZE_FACTOR_DEFAULT,
       windowSizeReducingRTTThresholdFactor =
         orDefault (opt_windowSizeReducingRTTThresholdFactor opts)
           WINDOW_SIZE_REDUCING_RTT_THRESHOLD_FACTOR_DEFAULT,
       initialPingDurationReference =
         orDefault (opt_initialPingDurationReference opts) INITIAL_PING_DURATION_REFERENCE_DEFAULT,
       pingIntervalFactor = orDefault (opt_pingIntervalFactor opts) PING_INTERVAL_FACTOR_DEFAULT,
       onSetLocalWindowSize = opt_onSetLocalWindowSize opts,
       onPingCallback = opt_onPingCallback opts \<rparr>"

definition noOptions :: AutoWindowSizeOptions where
  "noOptions =
     \<lparr> opt_bandwidthCalculationInterval = None, opt_initialWindowSize = None,
       opt_minWindowSize = None, opt_windowSizeFactor = None,
       opt_windowSizeReducingRTTThresholdFactor = None,
       opt_initialPingDurationReference = None, opt_pingIntervalFactor = None,
       opt_onSetLocalWindowSize = False, opt_onPingCallback = False \<rparr>"

subsection \<open>The session, the closure state and the observable calls\<close>

text \<open>What the code reads from the \<^verbatim>\<open>Http2Session\<close>.\<close>

record session =
  destroyed :: bool
  effectiveLocalWindowSize :: "real option"

text \<open>The calls the code makes on the session and on the observers, in order.\<close>

datatype effect =
  SetLocalWindowSize real
  | OnSetLocalWindowSize real
  | OnPingCallback real
  | SessionPing

text \<open>
  What setup can throw: the failed \<^verbatim>\<open>assert\<close> of the library, and the two errors of
  Node's \<^verbatim>\<open>session.setLocalWindowSize\<close>.
\<close>

datatype error = AssertionError | ERR_HTTP2_INVALID_SESSION | ERR_OUT_OF_RANGE

text \<open>
  \<^verbatim>\<open>session.setLocalWindowSize(windowSize)\<close> belongs to Node, not to the library. It throws
  \<^verbatim>\<open>ERR_HTTP2_INVALID_SESSION\<close> on a destroyed session, and \<^verbatim>\<open>ERR_OUT_OF_RANGE\<close> unless
  the size is an integer from 0 to \<open>2^31 - 1\<close>. \<open>None\<close> is a call that returns.
\<close>

definition setLocalWindowSize :: "session \<Rightarrow> real \<Rightarrow> error option" where
  "setLocalWindowSize s w =
     (if destroyed s then Some ERR_HTTP2_INVALID_SESSION
      else if real_of_int \<lfloor>w\<rfloor> \<noteq> w \<or> w < 0 \<or> 2147483647 < w then Some ERR_OUT_OF_RANGE
      else None)"

text \<open>
  The closure variables. \<open>bandwidthTimer\<close> is the interval of \<^verbatim>\<open>setupAutoWindowSize\<close>
  (armed or cleared); \<open>pingTimer\<close> is the interval held by the variable \<^verbatim>\<open>timer\<close> of
  \<^verbatim>\<open>setupSessionPing\<close>: \<open>Some delay\<close> while it is armed, \<open>None\<close> before the first
  \<^verbatim>\<open>setInterval\<close> and after \<^verbatim>\<open>clearInterval\<close>. Every \<^verbatim>\<open>setInterval\<close> there follows a
  \<^verbatim>\<open>clearInterval\<close> of the same variable, so one value describes all ping timers.
\<close>

record controller =
  recentRTT :: "real option"
  minRTT :: "real option"
  receivedSinceLastBandwidthCalculation :: nat
  bandwidthCalculatedAt :: int
  bandwidthTimer :: bool
  pingTimer :: "real option"

subsection \<open>\<^verbatim>\<open>setupSessionPing\<close>\<close>

definition update :: "config \<Rightarrow> real \<Rightarrow> controller \<Rightarrow> controller" where
  "update cfg duration st = st\<lparr>pingTimer := Some (duration * pingIntervalFactor cfg)\<rparr>"

definition ping :: "session \<Rightarrow> controller \<Rightarrow> effect list \<times> controller" where
  "ping s st =
     (if destroyed s then ([], st\<lparr>pingTimer := None\<rparr>)
      else ([SessionPing], st))"

text \<open>
  The callback handed to \<^verbatim>\<open>setupSessionPing\<close>. \<^verbatim>\<open>Math.min(minRTT ?? Infinity, recentRTT)\<close>
  is \<open>recentRTT\<close> when \<open>minRTT\<close> is unset.
\<close>

definition rttCallback :: "config \<Rightarrow> real \<Rightarrow> controller \<Rightarrow> effect list \<times> controller" where
  "rttCallback cfg duration st =
     (let st1 = st\<lparr>recentRTT := Some duration\<rparr>;
          st2 = st1\<lparr>minRTT := Some (case minRTT st1 of None \<Rightarrow> duration
                                      | Some m \<Rightarrow> min m duration)\<rparr>
      in (if onPingCallback cfg then [OnPingCallback duration] else [], st2))"

text \<open>The completion callback of \<^verbatim>\<open>session.ping\<close>: \<open>err\<close> is whether an error was reported.\<close>

definition pingCompleted :: "config \<Rightarrow> bool \<Rightarrow> real \<Rightarrow> controller \<Rightarrow> effect list \<times> controller" where
  "pingCompleted cfg err duration st =
     (if err then ([], st)
      else (case rttCallback cfg duration st of
              (es, st1) \<Rightarrow> (es, update cfg duration st1)))"

definition setupSessionPing :: "config \<Rightarrow> session \<Rightarrow> controller \<Rightarrow> effect list \<times> controller" where
  "setupSessionPing cfg s st =
     (case ping s (st\<lparr>pingTimer := None\<rparr>) of
        (es, st1) \<Rightarrow> (es, update cfg (initialPingDurationReference cfg) st1))"

subsection \<open>\<^verbatim>\<open>setupAutoWindowSize\<close>\<close>

text \<open>Lines 119 to 130: the window size computed by a tick that reaches the decision.\<close>

definition windowSize :: "config \<Rightarrow> nat \<Rightarrow> int \<Rightarrow> real \<Rightarrow> real" where
  "windowSize cfg received duration m =
     (let bandwidth = real received / real_of_int duration;
          refWindowSize = bandwidth * m
      in max (real_of_int \<lceil>refWindowSize * windowSizeFactor cfg\<rceil>) MIN_WINDOW_SIZE_DEFAULT)"

text \<open>
  The interval callback: \<open>now\<close> is what \<^verbatim>\<open>Date.now()\<close> returns. The callback runs from a
  timer, so nothing it throws reaches a caller of the library; the model records the call
  of \<^verbatim>\<open>session.setLocalWindowSize\<close> and does not follow an exception of that call.
\<close>

definition bandwidthTick ::
  "config \<Rightarrow> session \<Rightarrow> int \<Rightarrow> controller \<Rightarrow> effect list \<times> controller" where
  "bandwidthTick cfg s now st =
     (let duration = now - bandwidthCalculatedAt st;
          received = receivedSinceLastBandwidthCalculation st;
          st1 = st\<lparr>receivedSinceLastBandwidthCalculation := 0, bandwidthCalculatedAt := now\<rparr>
      in if duration \<le> 0 then ([], st1)
         else (case effectiveLocalWindowSize s of
                 None \<Rightarrow> ([], st1)
               | Some eff \<Rightarrow>
                   (case minRTT st1 of
                      None \<Rightarrow> ([], st1)
                    | Some m \<Rightarrow>
                        (case recentRTT st1 of
                           None \<Rightarrow> ([], st1)
                         | Some r \<Rightarrow>
                             (let ws = windowSize cfg received duration m
                              in if ws > eff \<or>
                                    (ws < eff \<and> r > m * windowSizeReducingRTTThresholdFactor cfg)
                                 then (SetLocalWindowSize ws #
                                        (if onSetLocalWindowSize cfg
                                         then [OnSetLocalWindowSize ws] else []), st1)
                                 else ([], st1))))))"

text \<open>The wrapped \<^verbatim>\<open>stream.push\<close>: \<open>None\<close> is \<^verbatim>\<open>null\<close>, \<open>Some n\<close> a buffer of \<open>n\<close> bytes.\<close>

definition streamPush :: "nat option \<Rightarrow> controller \<Rightarrow> controller" where
  "streamPush data st =
     (case data of
        None \<Rightarrow> st
      | Some n \<Rightarrow> st\<lparr>receivedSinceLastBandwidthCalculation :=
                       receivedSinceLastBandwidthCalculation st + n\<rparr>)"

text \<open>The two \<^verbatim>\<open>'close'\<close> listeners, in the order they were registered.\<close>

definition sessionClose :: "controller \<Rightarrow> controller" where
  "sessionClose st = (st\<lparr>pingTimer := None\<rparr>)\<lparr>bandwidthTimer := False\<rparr>"

definition initialController :: controller where
  "initialController =
     \<lparr> recentRTT = None, minRTT = None, receivedSinceLastBandwidthCalculation = 0,
       bandwidthCalculatedAt = 0, bandwidthTimer = False, pingTimer = None \<rparr>"

text \<open>
  The body of \<^verbatim>\<open>setupAutoWindowSize\<close>. A failed \<^verbatim>\<open>assert\<close> throws before anything else
  runs. The call of \<^verbatim>\<open>session.setLocalWindowSize\<close> that follows is not guarded: when it
  throws, setup ends there with the session's error. The result is the calls made so far
  and either the error or the controller.
\<close>

definition setupAutoWindowSize ::
  "AutoWindowSizeOptions \<Rightarrow> session \<Rightarrow> int \<Rightarrow> effect list \<times> (error + controller)" where
  "setupAutoWindowSize opts s now =
     (let cfg = destructure opts;
          proceed = (\<lambda>es0.
            (case setupSessionPing cfg s initialController of
               (es1, st1) \<Rightarrow>
                 (es0 @ es1,
                  Inr (st1\<lparr>receivedSinceLastBandwidthCalculation := 0,
                           bandwidthCalculatedAt := now,
                           bandwidthTimer := True\<rparr>))))
      in case initialWindowSize cfg of
           None \<Rightarrow> proceed []
         | Some w \<Rightarrow>
             if w \<ge> minWindowSize cfg
             then (case setLocalWindowSize s w of
                     None \<Rightarrow> proceed [SetLocalWindowSize w]
                   | Some e \<Rightarrow> ([SetLocalWindowSize w], Inl e))
             else ([], Inl AssertionError))"

subsection \<open>The event loop\<close>

text \<open>
  What can happen to an attached controller. A timer fires only while it is armed. The
  \<^verbatim>\<open>'close'\<close> event belongs to a destroyed session: Node emits it once, after the session
  has been destroyed, so \<open>SessionCloses\<close> sets \<open>destroyed\<close> and runs the listeners.
  \<open>StateChanges\<close> is the session reporting another effective local window size.

  \<open>step\<close> takes any completion of a ping at any time. A real session is more
  restricted: when it is destroyed it cancels the pings in flight, and their callbacks
  receive an error, never a duration. The events a closed session delivers are therefore
  those with \<open>successes evs = []\<close> below.
\<close>

datatype event =
  BandwidthTimerFires int
  | PingTimerFires
  | PingCompletes bool real
  | StreamPush "nat option"
  | SessionCloses
  | StateChanges "real option"

record world =
  sess :: session
  ctl :: controller

fun step :: "config \<Rightarrow> event \<Rightarrow> world \<Rightarrow> effect list \<times> world" where
  "step cfg (BandwidthTimerFires now) w =
     (if bandwidthTimer (ctl w)
      then (case bandwidthTick cfg (sess w) now (ctl w) of (es, st) \<Rightarrow> (es, w\<lparr>ctl := st\<rparr>))
      else ([], w))"
| "step cfg PingTimerFires w =
     (if pingTimer (ctl w) \<noteq> None
      then (case ping (sess w) (ctl w) of (es, st) \<Rightarrow> (es, w\<lparr>ctl := st\<rparr>))
      else ([], w))"
| "step cfg (PingCompletes err duration) w =
     (case pingCompleted cfg err duration (ctl w) of (es, st) \<Rightarrow> (es, w\<lparr>ctl := st\<rparr>))"
| "step cfg (StreamPush data) w = ([], w\<lparr>ctl := streamPush data (ctl w)\<rparr>)"
| "step cfg SessionCloses w =
     ([], w\<lparr>sess := (sess w)\<lparr>destroyed := True\<rparr>, ctl := sessionClose (ctl w)\<rparr>)"
| "step cfg (StateChanges eff) w =
     ([], w\<lparr>sess := (sess w)\<lparr>effectiveLocalWindowSize := eff\<rparr>\<rparr>)"

fun run :: "config \<Rightarrow> event list \<Rightarrow> world \<Rightarrow> effect list \<times> world" where
  "run cfg [] w = ([], w)"
| "run cfg (ev # evs) w =
     (case step cfg ev w of
        (es, w1) \<Rightarrow> (case run cfg evs w1 of (es', w2) \<Rightarrow> (es @ es', w2)))"

text \<open>The durations of the successful ping completions among the events, in order.\<close>

fun successes :: "event list \<Rightarrow> real list" where
  "successes [] = []"
| "successes (PingCompletes err duration # evs) =
     (if err then successes evs else duration # successes evs)"
| "successes (_ # evs) = successes evs"

subsection \<open>The candidate as the specification words it\<close>

text \<open>
  Section 4.3, steps 5 and 6 of the specification:
  \<open>bandwidth = receivedBytes / duration\<close> and
  \<open>candidate = ceil(max(bandwidth \<times> minRTT \<times> windowSizeFactor, minWindowSize))\<close>,
  with \<open>minWindowSize\<close> the configured floor. This definition follows the
  specification's words; \<open>windowSize\<close> above follows the code.
\<close>

definition specCandidate :: "config \<Rightarrow> nat \<Rightarrow> int \<Rightarrow> real \<Rightarrow> real" where
  "specCandidate cfg receivedBytes duration m =
     (let bandwidth = real receivedBytes / real_of_int duration
      in real_of_int \<lceil>max (bandwidth * m * windowSizeFactor cfg) (minWindowSize cfg)\<rceil>)"

subsection \<open>Concrete sessions, states and options\<close>

definition liveSession :: "real option \<Rightarrow> session" where
  "liveSession eff = \<lparr> destroyed = False, effectiveLocalWindowSize = eff \<rparr>"

text \<open>A controller that has seen pings (\<open>r\<close> the latest, \<open>m\<close> the fastest) and \<open>n\<close> bytes.\<close>

definition measured :: "real \<Rightarrow> real \<Rightarrow> nat \<Rightarrow> controller" where
  "measured r m n =
     \<lparr> recentRTT = Some r, minRTT = Some m, receivedSinceLastBandwidthCalculation = n,
       bandwidthCalculatedAt = 0, bandwidthTimer = True, pingTimer = Some (r * 50) \<rparr>"

text \<open>The controller right after a setup at time 0 with the default ping settings.\<close>

definition attached :: controller where
  "attached =
     \<lparr> recentRTT = None, minRTT = None, receivedSinceLastBandwidthCalculation = 0,
       bandwidthCalculatedAt = 0, bandwidthTimer = True, pingTimer = Some 5000 \<rparr>"

definition raisedFloor :: AutoWindowSizeOptions where
  "raisedFloor = noOptions\<lparr>opt_minWindowSize := Some 100000\<rparr>"

definition smallInitialWindow :: AutoWindowSizeOptions where
  "smallInitialWindow = noOptions\<lparr>opt_initialWindowSize := Some 1000\<rparr>"

definition hugeInitialWindow :: AutoWindowSizeOptions where
  "hugeInitialWindow = noOptions\<lparr>opt_initialWindowSize := Some 2147483648\<rparr>"

definition observed :: AutoWindowSizeOptions where
  "observed =
     noOptions\<lparr>opt_initialWindowSize := Some 131072,
               opt_onSetLocalWindowSize := True, opt_onPingCallback := True\<rparr>"

text \<open>
  A session that was set up at time 0 and has just emitted \<^verbatim>\<open>'close'\<close>; the ping issued
  by setup may still be in flight.
\<close>

definition closedWorld :: world where
  "closedWorld = snd (step (destructure observed) SessionCloses
                        \<lparr>sess = liveSession None, ctl = attached\<rparr>)"

section \<open>Properties\<close>

subsection \<open>Evaluation rules and basic facts of the handlers\<close>

lemmas option_defaults =
  destructure_def noOptions_def orDefault_def
  BANDWIDTH_CALCULATION_INTERVAL_DEFAULT_def MIN_WINDOW_SIZE_DEFAULT_def
  WINDOW_SIZE_FACTOR_DEFAULT_def WINDOW_SIZE_REDUCING_RTT_THRESHOLD_FACTOR_DEFAULT_def
  INITIAL_PING_DURATION_REFERENCE_DEFAULT_def PING_INTERVAL_FACTOR_DEFAULT_def

lemmas handler_defs =
  bandwidthTick_def windowSize_def pingCompleted_def rttCallback_def update_def ping_def
  setupSessionPing_def setupAutoWindowSize_def initialController_def sessionClose_def
  streamPush_def Let_def

lemmas scenario_defs =
  liveSession_def measured_def attached_def raisedFloor_def smallInitialWindow_def
  hugeInitialWindow_def observed_def

lemma setup_default:
  "setupAutoWindowSize noOptions (liveSession eff) 0 = ([SessionPing], Inr attached)"
  by (simp add: handler_defs option_defaults scenario_defs)

lemma pingCompleted_error: "pingCompleted cfg True d st = ([], st)"
  by (simp add: pingCompleted_def)

lemma bandwidthTick_skips:
  "now - bandwidthCalculatedAt st \<le> 0 \<Longrightarrow>
   bandwidthTick cfg s now st =
     ([], st\<lparr>receivedSinceLastBandwidthCalculation := 0, bandwidthCalculatedAt := now\<rparr>)"
  by (simp add: bandwidthTick_def Let_def)

lemma bandwidthTick_decides:
  assumes "0 < now - bandwidthCalculatedAt st"
    and "effectiveLocalWindowSize s = Some eff"
    and "minRTT st = Some m" and "recentRTT st = Some r"
  shows "bandwidthTick cfg s now st =
     (let ws = windowSize cfg (receivedSinceLastBandwidthCalculation st)
                 (now - bandwidthCalculatedAt st) m
      in (if ws > eff \<or> (ws < eff \<and> r > m * windowSizeReducingRTTThresholdFactor cfg)
          then SetLocalWindowSize ws #
                 (if onSetLocalWindowSize cfg then [OnSetLocalWindowSize ws] else [])
          else [],
          st\<lparr>receivedSinceLastBandwidthCalculation := 0, bandwidthCalculatedAt := now\<rparr>))"
  using assms by (simp add: bandwidthTick_def Let_def)

lemma ceiling_max: "\<lceil>max a b\<rceil> = max \<lceil>a :: real\<rceil> \<lceil>b\<rceil>"
proof (cases "a \<le> b")
  case True
  then have "\<lceil>a\<rceil> \<le> \<lceil>b\<rceil>" by (rule ceiling_mono)
  with True show ?thesis by (simp add: max_def)
next
  case False
  then have "b \<le> a" by simp
  then have "\<lceil>b\<rceil> \<le> \<lceil>a\<rceil>" by (rule ceiling_mono)
  with \<open>b \<le> a\<close> show ?thesis by (simp add: max_def)
qed

text \<open>
  With the floor left at its default the code's window size is the specification's
  candidate: the two differ only in which floor they take.
\<close>

lemma windowSize_default_floor:
  assumes "minWindowSize cfg = MIN_WINDOW_SIZE_DEFAULT"
  shows "windowSize cfg n d m = specCandidate cfg n d m"
proof -
  have "\<lceil>MIN_WINDOW_SIZE_DEFAULT\<rceil> = 65536"
    by (simp add: MIN_WINDOW_SIZE_DEFAULT_def)
  moreover have "MIN_WINDOW_SIZE_DEFAULT = real_of_int 65536"
    by (simp add: MIN_WINDOW_SIZE_DEFAULT_def)
  ultimately show ?thesis
    using assms
    by (simp only: windowSize_def specCandidate_def Let_def ceiling_max of_int_max)
qed

lemma windowSize_default_bound: "MIN_WINDOW_SIZE_DEFAULT \<le> windowSize cfg n d m"
  by (simp add: windowSize_def Let_def)

subsection \<open>The window floor\<close>

text \<open>
  C1. The claim: every window size a tick applies is at least the configured
  \<open>minWindowSize\<close>. The tick takes the floor from the constant
  \<open>MIN_WINDOW_SIZE_DEFAULT\<close>, not from the option. With \<open>minWindowSize = 100000\<close>,
  a session whose window is 200000, two pings of 1 ms and 10 ms and a tick 200 ms after
  setup with no byte received, the tick applies 65536, below the configured floor.
\<close>

theorem floor_ignores_configured_minimum:
  "setupAutoWindowSize raisedFloor (liveSession (Some 200000)) 0
     = ([SessionPing], Inr attached) \<and>
   fst (run (destructure raisedFloor)
          [PingCompletes False 1, PingTimerFires, PingCompletes False 10,
           BandwidthTimerFires 200]
          \<lparr>sess = liveSession (Some 200000), ctl = attached\<rparr>)
     = [SessionPing, SetLocalWindowSize 65536] \<and>
   (65536 :: real) < minWindowSize (destructure raisedFloor)"
  by (simp add: handler_defs option_defaults scenario_defs)

subsection \<open>The candidate window size\<close>

text \<open>
  C2. The claim: the candidate of a tick is
  \<open>ceil(max(bandwidth * minRTT * windowSizeFactor, minWindowSize))\<close> with the configured
  floor. With \<open>minWindowSize = 100000\<close>, no byte received over 200 ms and a fastest ping
  of 50 ms, the code computes 65536 where the formula gives 100000.
\<close>

theorem candidate_ignores_configured_minimum:
  "windowSize (destructure raisedFloor) 0 200 50 = 65536 \<and>
   specCandidate (destructure raisedFloor) 0 200 50 = 100000"
  by (simp add: handler_defs option_defaults scenario_defs specCandidate_def)

subsection \<open>Runs of the event loop\<close>

lemma successes_append: "successes (xs @ ys) = successes xs @ successes ys"
  by (induction xs rule: successes.induct) simp_all

lemma step_pingCompletes_ok:
  "step cfg (PingCompletes False d) w =
     (if onPingCallback cfg then [OnPingCallback d] else [],
      w\<lparr>ctl := (ctl w)\<lparr>recentRTT := Some d,
                        minRTT := Some (case minRTT (ctl w) of None \<Rightarrow> d | Some m \<Rightarrow> min m d),
                        pingTimer := Some (d * pingIntervalFactor cfg)\<rparr>\<rparr>)"
  by (simp add: pingCompleted_def rttCallback_def update_def Let_def)

lemma step_pingCompletes_error: "step cfg (PingCompletes True d) w = ([], w)"
  by (simp add: pingCompleted_error)

lemma step_keeps_rtt:
  assumes "\<And>d. ev \<noteq> PingCompletes False d"
  shows "minRTT (ctl (snd (step cfg ev w))) = minRTT (ctl w) \<and>
         recentRTT (ctl (snd (step cfg ev w))) = recentRTT (ctl w)"
proof (cases ev)
  case (BandwidthTimerFires now)
  then show ?thesis
    by (simp add: bandwidthTick_def Let_def split: option.splits prod.splits)
next
  case PingTimerFires
  then show ?thesis by (simp add: ping_def split: prod.splits)
next
  case (PingCompletes err d)
  with assms have err by (cases err) auto
  with PingCompletes show ?thesis by (simp add: pingCompleted_error)
next
  case (StreamPush data)
  then show ?thesis by (simp add: streamPush_def split: option.splits)
next
  case SessionCloses
  then show ?thesis by (simp add: sessionClose_def)
next
  case (StateChanges eff)
  then show ?thesis by simp
qed

lemma run_Cons_snd: "snd (run cfg (ev # evs) w) = snd (run cfg evs (snd (step cfg ev w)))"
  by (simp split: prod.splits)

lemma run_Cons_fst:
  "fst (run cfg (ev # evs) w) = fst (step cfg ev w) @ fst (run cfg evs (snd (step cfg ev w)))"
  by (simp split: prod.splits)

lemma successes_Cons_other:
  "(\<And>d. ev \<noteq> PingCompletes False d) \<Longrightarrow> successes (ev # evs) = successes evs"
  by (cases ev) auto

lemma run_minRTT:
  "minRTT (ctl (snd (run cfg evs w))) =
     foldl (\<lambda>a d. Some (case a of None \<Rightarrow> d | Some x \<Rightarrow> min x d))
       (minRTT (ctl w)) (successes evs)"
proof (induction evs arbitrary: w)
  case Nil
  show ?case by simp
next
  case (Cons ev evs)
  show ?case
  proof (cases "\<exists>d. ev = PingCompletes False d")
    case True
    then obtain d where ev: "ev = PingCompletes False d" by blast
    show ?thesis
      unfolding run_Cons_snd Cons.IH ev by (simp add: step_pingCompletes_ok del: step.simps)
  next
    case False
    then have other: "\<And>d. ev \<noteq> PingCompletes False d" by blast
    show ?thesis
      unfolding run_Cons_snd Cons.IH
      by (simp add: step_keeps_rtt [OF other] successes_Cons_other [OF other])
  qed
qed

lemma run_recentRTT:
  "recentRTT (ctl (snd (run cfg evs w))) =
     (if successes evs = [] then recentRTT (ctl w) else Some (last (successes evs)))"
proof (induction evs arbitrary: w)
  case Nil
  show ?case by simp
next
  case (Cons ev evs)
  show ?case
  proof (cases "\<exists>d. ev = PingCompletes False d")
    case True
    then obtain d where ev: "ev = PingCompletes False d" by blast
    show ?thesis
      unfolding run_Cons_snd Cons.IH ev by (simp add: step_pingCompletes_ok del: step.simps)
  next
    case False
    then have other: "\<And>d. ev \<noteq> PingCompletes False d" by blast
    show ?thesis
      unfolding run_Cons_snd Cons.IH
      by (simp add: step_keeps_rtt [OF other] successes_Cons_other [OF other])
  qed
qed

lemma foldl_min_Some:
  "foldl (\<lambda>a d. Some (case a of None \<Rightarrow> d | Some x \<Rightarrow> min x d)) (Some (x::real)) ds
     = Some (Min (insert x (set ds)))"
proof (induction ds arbitrary: x)
  case Nil
  show ?case by simp
next
  case (Cons d ds)
  have "Min (insert (min x d) (set ds)) = Min (insert x (insert d (set ds)))"
    by (cases "set ds = {}") (simp_all add: min.assoc)
  then show ?case by (simp add: Cons.IH)
qed

lemma foldl_min_None:
  "ds \<noteq> [] \<Longrightarrow>
   foldl (\<lambda>a d. Some (case a of None \<Rightarrow> d | Some x \<Rightarrow> min x d)) None ds
     = Some (Min (set (ds :: real list)))"
  by (cases ds) (simp_all add: foldl_min_Some)

lemma setup_unmeasured:
  assumes "setupAutoWindowSize opts s now = (es, Inr st)"
  shows "minRTT st = None \<and> recentRTT st = None \<and> bandwidthTimer st"
  using assms
  by (auto simp add: handler_defs split: option.splits if_splits)

lemma unmeasured_tick:
  "minRTT st = None \<or> recentRTT st = None \<or> effectiveLocalWindowSize s = None \<Longrightarrow>
   fst (bandwidthTick cfg s now st) = []"
  by (auto simp add: bandwidthTick_def Let_def split: option.splits)

lemma unmeasured_step:
  assumes "minRTT (ctl w) = None" and "\<And>d. ev \<noteq> PingCompletes False d"
  shows "\<forall>e \<in> set (fst (step cfg ev w)). e = SessionPing"
proof (cases ev)
  case (BandwidthTimerFires now)
  have "fst (bandwidthTick cfg (sess w) now (ctl w)) = []"
    using assms(1) by (simp add: unmeasured_tick)
  with BandwidthTimerFires show ?thesis by (auto split: prod.splits)
next
  case PingTimerFires
  then show ?thesis by (simp add: ping_def split: prod.splits)
next
  case (PingCompletes err d)
  with assms(2) have err by (cases err) auto
  with PingCompletes show ?thesis by (simp add: pingCompleted_error)
qed simp_all

lemma unmeasured_run:
  "minRTT (ctl w) = None \<Longrightarrow> successes evs = [] \<Longrightarrow>
   \<forall>e \<in> set (fst (run cfg evs w)). e = SessionPing"
proof (induction evs arbitrary: w)
  case Nil
  show ?case by simp
next
  case (Cons ev evs)
  have other: "\<And>d. ev \<noteq> PingCompletes False d"
    using Cons.prems(2) by auto
  then have rest: "successes evs = []"
    using Cons.prems(2) by (simp add: successes_Cons_other)
  have "minRTT (ctl (snd (step cfg ev w))) = None"
    using step_keeps_rtt [OF other] Cons.prems(1) by simp
  then have "\<forall>e \<in> set (fst (run cfg evs (snd (step cfg ev w)))). e = SessionPing"
    using rest by (rule Cons.IH)
  moreover have "\<forall>e \<in> set (fst (step cfg ev w)). e = SessionPing"
    using Cons.prems(1) other by (rule unmeasured_step)
  ultimately show ?case
    unfolding run_Cons_fst by auto
qed

subsection \<open>The decision of a tick\<close>

text \<open>
  C4. A tick that has a positive duration, a defined effective window \<open>w\<close> and both
  RTT samples applies its candidate \<open>c\<close> exactly when \<open>c > w\<close> (growth, whatever
  the RTT), or \<open>c < w\<close> and \<open>recentRTT > minRTT * windowSizeReducingRTTThresholdFactor\<close>
  (shrink). In every other case it makes no call at all; in particular when \<open>c < w\<close>
  and \<open>recentRTT \<le> minRTT * windowSizeReducingRTTThresholdFactor\<close>. The candidate is
  the window size the code computes.
\<close>

theorem hysteresis_decision:
  assumes "0 < now - bandwidthCalculatedAt st"
    and "effectiveLocalWindowSize s = Some w"
    and "minRTT st = Some m" and "recentRTT st = Some r"
    and "c = windowSize cfg (receivedSinceLastBandwidthCalculation st)
               (now - bandwidthCalculatedAt st) m"
  shows "fst (bandwidthTick cfg s now st) =
           (if c > w \<or> (c < w \<and> r > m * windowSizeReducingRTTThresholdFactor cfg)
            then SetLocalWindowSize c #
                   (if onSetLocalWindowSize cfg then [OnSetLocalWindowSize c] else [])
            else []) \<and>
         (SetLocalWindowSize c \<in> set (fst (bandwidthTick cfg s now st)) \<longleftrightarrow>
            (c > w \<or> (c < w \<and> r > m * windowSizeReducingRTTThresholdFactor cfg))) \<and>
         (c < w \<and> r \<le> m * windowSizeReducingRTTThresholdFactor cfg \<longrightarrow>
            fst (bandwidthTick cfg s now st) = [])"
  using assms by (simp add: bandwidthTick_decides Let_def)

text \<open>
  Scenarios A, B and C of the specification: growth to 500000, no change at a recent
  RTT of 60, shrink to 300000 at a recent RTT of 300.
\<close>

theorem hysteresis_decision_witness:
  "fst (bandwidthTick (destructure noOptions) (liveSession (Some 65536)) 200
          (measured 60 50 1000000)) = [SetLocalWindowSize 500000] \<and>
   fst (bandwidthTick (destructure noOptions) (liveSession (Some 500000)) 200
          (measured 60 50 600000)) = [] \<and>
   fst (bandwidthTick (destructure noOptions) (liveSession (Some 500000)) 200
          (measured 300 50 600000)) = [SetLocalWindowSize 300000]"
proof -
  have c1: "windowSize (destructure noOptions) 1000000 200 50 = 500000"
    and c2: "windowSize (destructure noOptions) 600000 200 50 = 300000"
    by (simp_all add: windowSize_def option_defaults)
  have "fst (bandwidthTick (destructure noOptions) (liveSession (Some 65536)) 200
          (measured 60 50 1000000)) = [SetLocalWindowSize 500000]"
    using hysteresis_decision [of 200 "measured 60 50 1000000" "liveSession (Some 65536)"
        65536 50 60 500000 "destructure noOptions"] c1
    by (simp add: scenario_defs option_defaults)
  moreover have "fst (bandwidthTick (destructure noOptions) (liveSession (Some 500000)) 200
          (measured 60 50 600000)) = []"
    using hysteresis_decision [of 200 "measured 60 50 600000" "liveSession (Some 500000)"
        500000 50 60 300000 "destructure noOptions"] c2
    by (simp add: scenario_defs option_defaults)
  moreover have "fst (bandwidthTick (destructure noOptions) (liveSession (Some 500000)) 200
          (measured 300 50 600000)) = [SetLocalWindowSize 300000]"
    using hysteresis_decision [of 200 "measured 300 50 600000" "liveSession (Some 500000)"
        500000 50 300 300000 "destructure noOptions"] c2
    by (simp add: scenario_defs option_defaults)
  ultimately show ?thesis by simp
qed

subsection \<open>Ticks that are skipped\<close>

text \<open>
  C6, as stated, fails: a tick whose duration is not positive has already reset the byte
  counter when it returns. Here 1000 bytes are pending, the tick runs at the very
  millisecond of the previous calculation, and the counter is 0 afterwards.
\<close>

theorem skipped_tick_resets_counter:
  "0 - bandwidthCalculatedAt (measured 60 50 1000) \<le> 0 \<and>
   receivedSinceLastBandwidthCalculation (measured 60 50 1000) = 1000 \<and>
   receivedSinceLastBandwidthCalculation
     (snd (bandwidthTick (destructure noOptions) (liveSession (Some 65536)) 0
             (measured 60 50 1000))) = 0"
  by (simp add: bandwidthTick_def Let_def measured_def)

text \<open>
  C6, amended: a tick with \<open>now - lastTickTimestamp \<le> 0\<close> makes no call (no window
  change), sets the timestamp to \<open>now\<close> and resets the byte counter to zero; the RTT
  samples and both timers are left as they were.
\<close>

theorem nonpositive_duration_tick:
  assumes "now - bandwidthCalculatedAt st \<le> 0"
  shows "bandwidthTick cfg s now st =
           ([], st\<lparr>receivedSinceLastBandwidthCalculation := 0, bandwidthCalculatedAt := now\<rparr>)"
  using assms by (rule bandwidthTick_skips)

theorem nonpositive_duration_tick_witness:
  "bandwidthTick (destructure noOptions) (liveSession (Some 65536)) (-5) (measured 60 50 1000)
     = ([], \<lparr> recentRTT = Some 60, minRTT = Some 50,
              receivedSinceLastBandwidthCalculation = 0, bandwidthCalculatedAt = -5,
              bandwidthTimer = True, pingTimer = Some 3000 \<rparr>)"
  using nonpositive_duration_tick [of "-5" "measured 60 50 1000" "destructure noOptions"
      "liveSession (Some 65536)"]
  by (simp add: measured_def)

text \<open>
  C8. A tick makes no call when \<open>minRTT\<close> or \<open>recentRTT\<close> is unset or when the
  session has no effective local window size. And from a successful setup on, as long
  as no ping has completed successfully, no run of events ever calls
  \<open>setLocalWindowSize\<close>.
\<close>

theorem no_window_change_without_measurements:
  "(minRTT st = None \<or> recentRTT st = None \<or> effectiveLocalWindowSize s = None \<longrightarrow>
      fst (bandwidthTick cfg s now st) = []) \<and>
   (setupAutoWindowSize opts s0 now0 = (es, Inr st0) \<and> successes evs = [] \<longrightarrow>
      (\<forall>x. SetLocalWindowSize x \<notin>
             set (fst (run (destructure opts) evs \<lparr>sess = s0, ctl = st0\<rparr>))))"
proof (intro conjI impI allI)
  assume "minRTT st = None \<or> recentRTT st = None \<or> effectiveLocalWindowSize s = None"
  then show "fst (bandwidthTick cfg s now st) = []" by (rule unmeasured_tick)
next
  fix x
  assume a: "setupAutoWindowSize opts s0 now0 = (es, Inr st0) \<and> successes evs = []"
  then have "minRTT st0 = None" using setup_unmeasured by blast
  then have "minRTT (ctl \<lparr>sess = s0, ctl = st0\<rparr>) = None" by simp
  moreover from a have "successes evs = []" by simp
  ultimately have
    "\<forall>e \<in> set (fst (run (destructure opts) evs \<lparr>sess = s0, ctl = st0\<rparr>)).
       e = SessionPing"
    by (rule unmeasured_run)
  then show "SetLocalWindowSize x \<notin>
               set (fst (run (destructure opts) evs \<lparr>sess = s0, ctl = st0\<rparr>))"
    by blast
qed

theorem no_window_change_without_measurements_witness:
  "fst (bandwidthTick (destructure noOptions) (liveSession (Some 65536)) 200 attached) = [] \<and>
   fst (bandwidthTick (destructure noOptions) (liveSession None) 200
          (measured 60 50 1000000)) = [] \<and>
   SetLocalWindowSize 500000 \<notin>
     set (fst (run (destructure noOptions)
                 [StreamPush (Some 1000000), PingCompletes True 0, BandwidthTimerFires 200,
                  PingTimerFires]
                 \<lparr>sess = liveSession (Some 65536), ctl = attached\<rparr>))"
  using no_window_change_without_measurements
      [of attached "liveSession (Some 65536)" "destructure noOptions" 200
          noOptions "liveSession (Some 65536)" 0 "[SessionPing]" attached
          "[StreamPush (Some 1000000), PingCompletes True 0, BandwidthTimerFires 200,
            PingTimerFires]"]
    no_window_change_without_measurements
      [of "measured 60 50 1000000" "liveSession None" "destructure noOptions" 200
          noOptions "liveSession None" 0 "[SessionPing]" attached "[]"]
    setup_default [of "Some 65536"]
  by (simp add: scenario_defs)

subsection \<open>Ping completions\<close>

text \<open>
  C5. After a successful setup, whatever else happens in between, once the successful
  ping completions have had the durations \<open>ds\<close> (at least one), \<open>minRTT\<close> is the
  minimum of \<open>ds\<close> and \<open>recentRTT\<close> is its last element. One more successful
  completion of duration \<open>d\<close> makes \<open>minRTT\<close> the smaller of the old minimum and
  \<open>d\<close>: it never grows.
\<close>

theorem rtt_after_successful_pings:
  assumes "setupAutoWindowSize opts s now = (es, Inr st0)"
    and "successes evs = ds" and "ds \<noteq> []"
  shows "minRTT (ctl (snd (run (destructure opts) evs \<lparr>sess = s, ctl = st0\<rparr>)))
           = Some (Min (set ds)) \<and>
         recentRTT (ctl (snd (run (destructure opts) evs \<lparr>sess = s, ctl = st0\<rparr>)))
           = Some (last ds) \<and>
         minRTT (ctl (snd (run (destructure opts) (evs @ [PingCompletes False d])
                             \<lparr>sess = s, ctl = st0\<rparr>)))
           = Some (min (Min (set ds)) d) \<and>
         min (Min (set ds)) d \<le> Min (set ds)"
proof -
  from assms(1) have unset: "minRTT st0 = None" "recentRTT st0 = None"
    using setup_unmeasured by blast+
  have more: "successes (evs @ [PingCompletes False d]) = ds @ [d]"
    by (simp add: successes_append assms(2))
  have "Min (set (ds @ [d])) = min (Min (set ds)) d"
    using assms(3) by (simp add: min.commute)
  then show ?thesis
    using assms(2,3) unset more
    by (simp add: run_minRTT run_recentRTT foldl_min_None del: foldl_append)
qed

theorem rtt_after_successful_pings_witness:
  "minRTT (ctl (snd (run (destructure noOptions)
      [PingCompletes False 30, PingTimerFires, PingCompletes True 0, PingCompletes False 20,
       BandwidthTimerFires 200, PingCompletes False 25]
      \<lparr>sess = liveSession None, ctl = attached\<rparr>))) = Some 20 \<and>
   recentRTT (ctl (snd (run (destructure noOptions)
      [PingCompletes False 30, PingTimerFires, PingCompletes True 0, PingCompletes False 20,
       BandwidthTimerFires 200, PingCompletes False 25]
      \<lparr>sess = liveSession None, ctl = attached\<rparr>))) = Some 25"
  using rtt_after_successful_pings [OF setup_default, of
      "[PingCompletes False 30, PingTimerFires, PingCompletes True 0, PingCompletes False 20,
        BandwidthTimerFires 200, PingCompletes False 25]" "[30, 20, 25]" None 0]
  by simp

text \<open>
  C7. A ping completion that reports an error changes nothing: the controller is the
  same (so are \<open>recentRTT\<close>, \<open>minRTT\<close> and the armed ping timer), no observer is
  called, and a later tick decides exactly as it would have without the failed ping.
\<close>

theorem failed_ping_changes_nothing:
  "pingCompleted cfg True d st = ([], st) \<and>
   step cfg (PingCompletes True d) w = ([], w) \<and>
   recentRTT (snd (pingCompleted cfg True d st)) = recentRTT st \<and>
   minRTT (snd (pingCompleted cfg True d st)) = minRTT st \<and>
   pingTimer (snd (pingCompleted cfg True d st)) = pingTimer st \<and>
   bandwidthTick cfg s now (snd (pingCompleted cfg True d st)) = bandwidthTick cfg s now st"
  by (simp add: pingCompleted_error)

text \<open>
  Scenario D: after a failed ping the tick still shrinks the window from the stale
  samples.
\<close>

theorem failed_ping_changes_nothing_witness:
  "pingCompleted (destructure observed) True 7 (measured 300 50 600000)
     = ([], measured 300 50 600000) \<and>
   fst (bandwidthTick (destructure observed) (liveSession (Some 500000)) 200
          (snd (pingCompleted (destructure observed) True 7 (measured 300 50 600000))))
     = [SetLocalWindowSize 300000, OnSetLocalWindowSize 300000]"
  using failed_ping_changes_nothing [of "destructure observed" 7 "measured 300 50 600000"
      "\<lparr>sess = liveSession (Some 500000), ctl = measured 300 50 600000\<rparr>"
      "liveSession (Some 500000)" 200]
  by (simp add: handler_defs option_defaults scenario_defs)

subsection \<open>Setup\<close>

lemma setup_asserts:
  "opt_initialWindowSize opts = Some v \<Longrightarrow> v < minWindowSize (destructure opts) \<Longrightarrow>
   setupAutoWindowSize opts s now = ([], Inl AssertionError)"
  by (simp add: setupAutoWindowSize_def Let_def destructure_def)

lemma setup_rejected:
  "opt_initialWindowSize opts = Some v \<Longrightarrow> minWindowSize (destructure opts) \<le> v \<Longrightarrow>
   setLocalWindowSize s v = Some e \<Longrightarrow>
   setupAutoWindowSize opts s now = ([SetLocalWindowSize v], Inl e)"
  by (simp add: setupAutoWindowSize_def Let_def destructure_def)

lemma setup_proceeds:
  assumes "opt_initialWindowSize opts = None \<or>
           (\<exists>v. opt_initialWindowSize opts = Some v \<and> minWindowSize (destructure opts) \<le> v \<and>
                setLocalWindowSize s v = None)"
  shows "\<exists>st. snd (setupAutoWindowSize opts s now) = Inr st"
  using assms
  by (auto simp add: setupAutoWindowSize_def Let_def destructure_def
        split: option.splits prod.splits)

text \<open>
  C9, as stated, fails in its last part: the configuration check is not the only
  failure setup raises. An \<open>initialWindowSize\<close> of \<open>2^31\<close> is not below the floor and
  passes the \<^verbatim>\<open>assert\<close>; the session rejects it, and the error of
  \<^verbatim>\<open>session.setLocalWindowSize\<close> leaves setup.
\<close>

theorem setup_fails_on_rejected_size:
  "setupAutoWindowSize hugeInitialWindow (liveSession None) 0
     = ([SetLocalWindowSize 2147483648], Inl ERR_OUT_OF_RANGE) \<and>
   \<not> (2147483648 < minWindowSize (destructure hugeInitialWindow))"
  by (simp add: setupAutoWindowSize_def setLocalWindowSize_def Let_def option_defaults
        scenario_defs)

text \<open>
  C9, amended: an \<open>initialWindowSize\<close> below \<open>minWindowSize\<close> makes setup fail with the
  assertion error before any call on the session and before any timer exists (the
  result carries no call and no controller). Setup raises one other failure: an
  \<open>initialWindowSize\<close> that passes the check and that \<^verbatim>\<open>session.setLocalWindowSize\<close>
  rejects makes setup end with the session's error, after that call and before any ping
  or timer. Setup fails in these two cases only.
\<close>

theorem setup_failures:
  "(opt_initialWindowSize opts = Some w \<and> w < minWindowSize (destructure opts) \<longrightarrow>
      setupAutoWindowSize opts s now = ([], Inl AssertionError)) \<and>
   (opt_initialWindowSize opts = Some w \<and> minWindowSize (destructure opts) \<le> w \<and>
    setLocalWindowSize s w = Some e \<longrightarrow>
      setupAutoWindowSize opts s now = ([SetLocalWindowSize w], Inl e)) \<and>
   ((\<exists>e'. snd (setupAutoWindowSize opts s now) = Inl e') \<longleftrightarrow>
      (\<exists>v. opt_initialWindowSize opts = Some v \<and>
           (v < minWindowSize (destructure opts) \<or> setLocalWindowSize s v \<noteq> None)))"
proof (intro conjI impI)
  assume "opt_initialWindowSize opts = Some w \<and> w < minWindowSize (destructure opts)"
  then show "setupAutoWindowSize opts s now = ([], Inl AssertionError)"
    by (simp add: setup_asserts)
next
  assume "opt_initialWindowSize opts = Some w \<and> minWindowSize (destructure opts) \<le> w \<and>
    setLocalWindowSize s w = Some e"
  then show "setupAutoWindowSize opts s now = ([SetLocalWindowSize w], Inl e)"
    by (simp add: setup_rejected)
next
  show "(\<exists>e'. snd (setupAutoWindowSize opts s now) = Inl e') \<longleftrightarrow>
      (\<exists>v. opt_initialWindowSize opts = Some v \<and>
           (v < minWindowSize (destructure opts) \<or> setLocalWindowSize s v \<noteq> None))"
  proof
    assume "\<exists>e'. snd (setupAutoWindowSize opts s now) = Inl e'"
    then obtain e' where failed: "snd (setupAutoWindowSize opts s now) = Inl e'" ..
    show "\<exists>v. opt_initialWindowSize opts = Some v \<and>
           (v < minWindowSize (destructure opts) \<or> setLocalWindowSize s v \<noteq> None)"
    proof (rule ccontr)
      assume "\<not> ?thesis"
      then have "opt_initialWindowSize opts = None \<or>
           (\<exists>v. opt_initialWindowSize opts = Some v \<and> minWindowSize (destructure opts) \<le> v \<and>
                setLocalWindowSize s v = None)"
        by (cases "opt_initialWindowSize opts") (auto simp add: not_less)
      then obtain st where "snd (setupAutoWindowSize opts s now) = Inr st"
        using setup_proceeds by blast
      with failed show False by simp
    qed
  next
    assume "\<exists>v. opt_initialWindowSize opts = Some v \<and>
           (v < minWindowSize (destructure opts) \<or> setLocalWindowSize s v \<noteq> None)"
    then obtain v where v: "opt_initialWindowSize opts = Some v"
      and why: "v < minWindowSize (destructure opts) \<or> setLocalWindowSize s v \<noteq> None"
      by blast
    show "\<exists>e'. snd (setupAutoWindowSize opts s now) = Inl e'"
    proof (cases "v < minWindowSize (destructure opts)")
      case True
      with v show ?thesis by (simp add: setup_asserts)
    next
      case False
      with why obtain e0 where "setLocalWindowSize s v = Some e0" by auto
      with v False show ?thesis by (simp add: setup_rejected)
    qed
  qed
qed

theorem setup_failures_witness:
  "setupAutoWindowSize smallInitialWindow (liveSession None) 0 = ([], Inl AssertionError) \<and>
   setupAutoWindowSize hugeInitialWindow (liveSession None) 0
     = ([SetLocalWindowSize 2147483648], Inl ERR_OUT_OF_RANGE) \<and>
   \<not> (\<exists>e. snd (setupAutoWindowSize noOptions (liveSession None) 0) = Inl e) \<and>
   \<not> (\<exists>e. snd (setupAutoWindowSize observed (liveSession None) 0) = Inl e)"
  using setup_failures [of smallInitialWindow 1000 "liveSession None" 0 AssertionError]
    setup_failures [of hugeInitialWindow 2147483648 "liveSession None" 0 ERR_OUT_OF_RANGE]
    setup_failures [of noOptions 0 "liveSession None" 0 AssertionError]
    setup_failures [of observed 131072 "liveSession None" 0 AssertionError]
  by (simp add: setLocalWindowSize_def option_defaults scenario_defs)

lemma tick_calls:
  "fst (bandwidthTick cfg s now st) = [] \<or>
   (\<exists>c. fst (bandwidthTick cfg s now st) =
          SetLocalWindowSize c #
            (if onSetLocalWindowSize cfg then [OnSetLocalWindowSize c] else []))"
  by (simp add: bandwidthTick_def Let_def split: option.splits)

lemma setup_calls:
  "fst (setupAutoWindowSize opts s now) =
     (case opt_initialWindowSize opts of
        None \<Rightarrow> (if destroyed s then [] else [SessionPing])
      | Some w \<Rightarrow>
          if minWindowSize (destructure opts) \<le> w
          then SetLocalWindowSize w #
                 (if setLocalWindowSize s w = None then [SessionPing] else [])
          else [])"
  by (auto simp add: setupAutoWindowSize_def setupSessionPing_def ping_def Let_def
        destructure_def setLocalWindowSize_def split: option.splits if_splits)

text \<open>
  C10. A valid \<open>initialWindowSize\<close> is applied by setup with \<open>setLocalWindowSize\<close>
  as its first call (the ping follows when the session takes the size, nothing follows
  when it throws), and setup never calls the \<open>onSetLocalWindowSize\<close> observer. No
  event other than a tick calls the observer. A tick either makes no call, or calls
  \<open>setLocalWindowSize\<close> and then, when the observer was supplied, the observer with
  the same value.
\<close>

theorem observer_called_by_ticks_only:
  "(opt_initialWindowSize opts = Some v \<and> minWindowSize (destructure opts) \<le> v \<longrightarrow>
      fst (setupAutoWindowSize opts s now) =
        SetLocalWindowSize v #
          (if setLocalWindowSize s v = None then [SessionPing] else [])) \<and>
   (\<forall>x. OnSetLocalWindowSize x \<notin> set (fst (setupAutoWindowSize opts s now))) \<and>
   ((\<forall>t. ev \<noteq> BandwidthTimerFires t) \<longrightarrow>
      (\<forall>x. OnSetLocalWindowSize x \<notin> set (fst (step cfg ev w)))) \<and>
   (fst (bandwidthTick cfg s now st) = [] \<or>
    (\<exists>c. fst (bandwidthTick cfg s now st) =
           SetLocalWindowSize c #
             (if onSetLocalWindowSize cfg then [OnSetLocalWindowSize c] else [])))"
proof (intro conjI impI allI)
  assume "opt_initialWindowSize opts = Some v \<and> minWindowSize (destructure opts) \<le> v"
  then show "fst (setupAutoWindowSize opts s now) =
      SetLocalWindowSize v #
        (if setLocalWindowSize s v = None then [SessionPing] else [])"
    by (simp add: setup_calls)
next
  fix x
  show "OnSetLocalWindowSize x \<notin> set (fst (setupAutoWindowSize opts s now))"
    by (simp add: setup_calls split: option.splits)
next
  fix x
  assume other: "\<forall>t. ev \<noteq> BandwidthTimerFires t"
  show "OnSetLocalWindowSize x \<notin> set (fst (step cfg ev w))"
  proof (cases ev)
    case (BandwidthTimerFires t)
    with other show ?thesis by simp
  next
    case PingTimerFires
    then show ?thesis by (simp add: ping_def)
  next
    case (PingCompletes err d)
    then show ?thesis
      by (cases err) (simp_all add: step_pingCompletes_error step_pingCompletes_ok del: step.simps)
  qed simp_all
next
  show "fst (bandwidthTick cfg s now st) = [] \<or>
    (\<exists>c. fst (bandwidthTick cfg s now st) =
           SetLocalWindowSize c #
             (if onSetLocalWindowSize cfg then [OnSetLocalWindowSize c] else []))"
    by (rule tick_calls)
qed

theorem observer_called_by_ticks_only_witness:
  "fst (setupAutoWindowSize observed (liveSession (Some 65536)) 0)
     = [SetLocalWindowSize 131072, SessionPing] \<and>
   OnSetLocalWindowSize 131072 \<notin> set (fst (setupAutoWindowSize observed (liveSession (Some 65536)) 0)) \<and>
   OnSetLocalWindowSize 30 \<notin>
     set (fst (step (destructure observed) (PingCompletes False 30)
                \<lparr>sess = liveSession (Some 65536), ctl = attached\<rparr>)) \<and>
   fst (bandwidthTick (destructure observed) (liveSession (Some 131072)) 200
          (measured 60 50 1000000))
     = [SetLocalWindowSize 500000, OnSetLocalWindowSize 500000]"
proof -
  have tick: "fst (bandwidthTick (destructure observed) (liveSession (Some 131072)) 200
          (measured 60 50 1000000))
     = [SetLocalWindowSize 500000, OnSetLocalWindowSize 500000]"
    by (simp add: handler_defs option_defaults scenario_defs)
  show ?thesis
    using observer_called_by_ticks_only [of observed 131072 "liveSession (Some 65536)" 0
        "PingCompletes False 30" "destructure observed"
        "\<lparr>sess = liveSession (Some 65536), ctl = attached\<rparr>" "measured 60 50 1000000"]
      tick
    by (simp add: setLocalWindowSize_def option_defaults scenario_defs)
qed

subsection \<open>After the session has closed\<close>

lemma closed_step:
  assumes "destroyed (sess w)" and "\<not> bandwidthTimer (ctl w)"
  shows "(\<forall>e \<in> set (fst (step cfg ev w)). \<exists>d. e = OnPingCallback d) \<and>
         destroyed (sess (snd (step cfg ev w))) \<and>
         \<not> bandwidthTimer (ctl (snd (step cfg ev w)))"
proof (cases ev)
  case (BandwidthTimerFires now)
  with assms show ?thesis by simp
next
  case PingTimerFires
  with assms show ?thesis by (simp add: ping_def)
next
  case (PingCompletes err d)
  with assms show ?thesis
    by (cases err) (simp_all add: step_pingCompletes_error step_pingCompletes_ok del: step.simps)
next
  case (StreamPush data)
  with assms show ?thesis by (simp add: streamPush_def split: option.splits)
next
  case SessionCloses
  with assms show ?thesis by (simp add: sessionClose_def)
next
  case (StateChanges eff)
  with assms show ?thesis by simp
qed

lemma closed_run:
  "destroyed (sess w) \<Longrightarrow> \<not> bandwidthTimer (ctl w) \<Longrightarrow>
   \<forall>e \<in> set (fst (run cfg evs w)). \<exists>d. e = OnPingCallback d"
proof (induction evs arbitrary: w)
  case Nil
  show ?case by simp
next
  case (Cons ev evs)
  note here = closed_step [OF Cons.prems, of cfg ev]
  from here have "\<forall>e \<in> set (fst (run cfg evs (snd (step cfg ev w)))). \<exists>d. e = OnPingCallback d"
    by (intro Cons.IH) simp_all
  with here show ?case
    unfolding run_Cons_fst by auto
qed

lemma close_step:
  "step cfg SessionCloses w =
     ([], \<lparr>sess = (sess w)\<lparr>destroyed := True\<rparr>,
           ctl = (ctl w)\<lparr>pingTimer := None, bandwidthTimer := False\<rparr>\<rparr>)"
  by (simp add: sessionClose_def)

lemma quiet_step:
  assumes "destroyed (sess w)" and "\<not> bandwidthTimer (ctl w)"
    and "pingTimer (ctl w) = None" and "\<And>d. ev \<noteq> PingCompletes False d"
  shows "fst (step cfg ev w) = [] \<and>
         destroyed (sess (snd (step cfg ev w))) \<and>
         \<not> bandwidthTimer (ctl (snd (step cfg ev w))) \<and>
         pingTimer (ctl (snd (step cfg ev w))) = None"
proof (cases ev)
  case (BandwidthTimerFires now)
  with assms show ?thesis by simp
next
  case PingTimerFires
  with assms show ?thesis by simp
next
  case (PingCompletes err d)
  with assms(4) have err by (cases err) auto
  with PingCompletes assms show ?thesis by (simp add: pingCompleted_error)
next
  case (StreamPush data)
  with assms show ?thesis by (simp add: streamPush_def split: option.splits)
next
  case SessionCloses
  with assms show ?thesis by (simp add: sessionClose_def)
next
  case (StateChanges eff)
  with assms show ?thesis by simp
qed

lemma quiet_run:
  "destroyed (sess w) \<Longrightarrow> \<not> bandwidthTimer (ctl w) \<Longrightarrow> pingTimer (ctl w) = None \<Longrightarrow>
   successes evs = [] \<Longrightarrow>
   fst (run cfg evs w) = [] \<and>
   \<not> bandwidthTimer (ctl (snd (run cfg evs w))) \<and>
   pingTimer (ctl (snd (run cfg evs w))) = None"
proof (induction evs arbitrary: w)
  case Nil
  then show ?case by simp
next
  case (Cons ev evs)
  have other: "\<And>d. ev \<noteq> PingCompletes False d"
    using Cons.prems(4) by auto
  then have rest: "successes evs = []"
    using Cons.prems(4) by (simp add: successes_Cons_other)
  note here = quiet_step [OF Cons.prems(1-3) other, of cfg]
  from here rest have
    "fst (run cfg evs (snd (step cfg ev w))) = [] \<and>
     \<not> bandwidthTimer (ctl (snd (run cfg evs (snd (step cfg ev w))))) \<and>
     pingTimer (ctl (snd (run cfg evs (snd (step cfg ev w))))) = None"
    by (intro Cons.IH) simp_all
  with here show ?case
    unfolding run_Cons_fst run_Cons_snd by simp
qed

text \<open>
  C3. The close event cancels both timers. Of the events that follow, a closed session
  completes its pings in flight with an error only (\<open>successes evs = []\<close>); over every
  such run the library makes no call at all (no ping, no \<open>setLocalWindowSize\<close>, no
  observer), \<open>recentRTT\<close> and \<open>minRTT\<close> keep the values they had at the close, and both
  timers stay cancelled. The completion of a ping that was in flight at the close is a
  no-op. Without the restriction on the events it still holds that no ping is issued
  and \<open>setLocalWindowSize\<close> is never called, whatever is delivered (\<open>evs'\<close>).
\<close>

theorem nothing_happens_after_close:
  assumes "wc = snd (step cfg SessionCloses w)" and "successes evs = []"
  shows "fst (run cfg evs wc) = [] \<and>
         recentRTT (ctl (snd (run cfg evs wc))) = recentRTT (ctl w) \<and>
         minRTT (ctl (snd (run cfg evs wc))) = minRTT (ctl w) \<and>
         pingTimer (ctl (snd (run cfg evs wc))) = None \<and>
         \<not> bandwidthTimer (ctl (snd (run cfg evs wc))) \<and>
         step cfg (PingCompletes True d) wc = ([], wc) \<and>
         (\<forall>e \<in> set (fst (run cfg evs' wc)).
            e \<noteq> SessionPing \<and> (\<forall>x. e \<noteq> SetLocalWindowSize x))"
proof -
  have d: "destroyed (sess wc)" and b: "\<not> bandwidthTimer (ctl wc)"
    and p: "pingTimer (ctl wc) = None"
    and r: "recentRTT (ctl wc) = recentRTT (ctl w)" "minRTT (ctl wc) = minRTT (ctl w)"
    unfolding assms(1) close_step by simp_all
  have quiet: "fst (run cfg evs wc) = [] \<and>
      \<not> bandwidthTimer (ctl (snd (run cfg evs wc))) \<and>
      pingTimer (ctl (snd (run cfg evs wc))) = None"
    using d b p assms(2) by (rule quiet_run)
  have rtt: "recentRTT (ctl (snd (run cfg evs wc))) = recentRTT (ctl w)"
      "minRTT (ctl (snd (run cfg evs wc))) = minRTT (ctl w)"
    using assms(2) r by (simp_all add: run_recentRTT run_minRTT)
  have "\<forall>e \<in> set (fst (run cfg evs' wc)). \<exists>d. e = OnPingCallback d"
    using d b by (rule closed_run)
  then have "\<forall>e \<in> set (fst (run cfg evs' wc)).
      e \<noteq> SessionPing \<and> (\<forall>x. e \<noteq> SetLocalWindowSize x)"
    by auto
  with quiet rtt show ?thesis
    by (simp add: step_pingCompletes_error del: step.simps)
qed

theorem nothing_happens_after_close_witness:
  "closedWorld = \<lparr>sess = \<lparr>destroyed = True, effectiveLocalWindowSize = None\<rparr>,
                  ctl = attached\<lparr>pingTimer := None, bandwidthTimer := False\<rparr>\<rparr> \<and>
   run (destructure observed)
     [BandwidthTimerFires 200, PingTimerFires, PingCompletes True 0,
      StateChanges (Some 65536), BandwidthTimerFires 400, SessionCloses]
     closedWorld
     = ([], \<lparr>sess = \<lparr>destroyed = True, effectiveLocalWindowSize = Some 65536\<rparr>,
             ctl = attached\<lparr>pingTimer := None, bandwidthTimer := False,
                            bandwidthCalculatedAt := 0\<rparr>\<rparr>) \<and>
   step (destructure observed) (PingCompletes True 30) closedWorld = ([], closedWorld)"
proof -
  have run: "run (destructure observed)
     [BandwidthTimerFires 200, PingTimerFires, PingCompletes True 0,
      StateChanges (Some 65536), BandwidthTimerFires 400, SessionCloses]
     closedWorld
     = ([], \<lparr>sess = \<lparr>destroyed = True, effectiveLocalWindowSize = Some 65536\<rparr>,
             ctl = attached\<lparr>pingTimer := None, bandwidthTimer := False,
                            bandwidthCalculatedAt := 0\<rparr>\<rparr>)"
    by (simp add: closedWorld_def handler_defs option_defaults scenario_defs)
  show ?thesis
    using nothing_happens_after_close [of closedWorld "destructure observed"
        "\<lparr>sess = liveSession None, ctl = attached\<rparr>"
        "[BandwidthTimerFires 200, PingTimerFires, PingCompletes True 0,
          StateChanges (Some 65536), BandwidthTimerFires 400, SessionCloses]" 30
        "[PingCompletes False 30, PingTimerFires]"] run
    by (simp add: closedWorld_def sessionClose_def scenario_defs)
qed

end
